theory Spec2Isabelle
  imports Main "HOL-Library.Word" "HOL-Library.Multiset" "HOL-Library.Char_ord" "HOL-Library.List_Lexorder"
    "HOL-Library.Product_Lexorder"
begin

unbundle bit_operations_syntax

section \<open>Strings and bytes\<close>

text \<open>
  Python's \<open>str\<close> is a sequence of code points. Archive paths are modelled as
  \<open>string\<close>, each \<open>char\<close> read as a code point below 256 (Latin-1); comment
  texts, which are encoded to UTF-8, are modelled as lists of code points (see the
  section on comments). Bytes are 8-bit words.
\<close>

type_synonym byte = "8 word"

definition lower_chr :: "char \<Rightarrow> char" where
  \<comment> \<open>\<open>str.lower()\<close> on one code point below 256: A-Z, and the Latin-1 capitals
      0xC0-0xDE but the multiplication sign 0xD7, move up by 32.\<close>
  "lower_chr c =
     (let n = (of_char c :: nat) in
      if (65 \<le> n \<and> n \<le> 90) \<or> (192 \<le> n \<and> n \<le> 222 \<and> n \<noteq> 215)
      then char_of (n + 32) else c)"

definition lower :: "string \<Rightarrow> string" where
  "lower s = map lower_chr s"

definition startswith :: "string \<Rightarrow> string \<Rightarrow> bool" where
  "startswith s p = (take (length p) s = p)"

definition endswith :: "string \<Rightarrow> string \<Rightarrow> bool" where
  "endswith s x = (length x \<le> length s \<and> drop (length s - length x) s = x)"

section \<open>arc_utils.py: the XOR stream and the container opener\<close>


definition xor_bytes :: "byte \<Rightarrow> byte list \<Rightarrow> byte list" where
  \<comment> \<open>\<open>bytes(b ^ self._key for b in data)\<close>\<close>
  "xor_bytes k bs = map (\<lambda>b. b XOR k) bs"

text \<open>
  The base stream (\<open>io.BufferedRandom\<close> on a regular file): its bytes and the
  position. A read returns the bytes from the position on, at most \<open>n\<close> of them
  (all of them when \<open>n\<close> is negative); a write overwrites from the position on and
  extends the file, filling a gap left by a seek past the end with zero bytes.
\<close>

record base_file =
  content :: "byte list"
  pos :: nat

datatype whence = SEEK_SET | SEEK_CUR | SEEK_END

datatype io_error = ValueError

definition base_read :: "base_file \<Rightarrow> int \<Rightarrow> byte list \<times> base_file" where
  "base_read f n =
     (let rest = drop (pos f) (content f);
          d = (if n < 0 then rest else take (nat n) rest)
      in (d, f\<lparr>pos := pos f + length d\<rparr>))"

definition base_write :: "base_file \<Rightarrow> byte list \<Rightarrow> nat \<times> base_file" where
  "base_write f d =
     (if d = [] then (0, f)
      else (length d,
            \<lparr>content = take (pos f) (content f) @ replicate (pos f - length (content f)) 0
                         @ d @ drop (pos f + length d) (content f),
             pos = pos f + length d\<rparr>))"

definition base_seek :: "base_file \<Rightarrow> int \<Rightarrow> whence \<Rightarrow> io_error + (nat \<times> base_file)" where
  "base_seek f off wh =
     (let target = (case wh of SEEK_SET \<Rightarrow> off
                    | SEEK_CUR \<Rightarrow> int (pos f) + off
                    | SEEK_END \<Rightarrow> int (length (content f)) + off)
      in if target < 0 then Inl ValueError
         else Inr (nat target, f\<lparr>pos := nat target\<rparr>))"

record XORFile =
  base :: base_file
  key :: byte

definition XORFile_read :: "XORFile \<Rightarrow> int \<Rightarrow> byte list \<times> XORFile" where
  "XORFile_read x n =
     (let (d, b) = base_read (base x) n
      in ((if d \<noteq> [] then xor_bytes (key x) d else d), x\<lparr>base := b\<rparr>))"

definition XORFile_write :: "XORFile \<Rightarrow> byte list \<Rightarrow> nat \<times> XORFile" where
  "XORFile_write x d =
     (let (n, b) = base_write (base x) (xor_bytes (key x) d) in (n, x\<lparr>base := b\<rparr>))"

definition XORFile_seek :: "XORFile \<Rightarrow> int \<Rightarrow> whence \<Rightarrow> io_error + (nat \<times> XORFile)" where
  "XORFile_seek x off wh =
     (case base_seek (base x) off wh of
        Inl e \<Rightarrow> Inl e
      | Inr (p, b) \<Rightarrow> Inr (p, x\<lparr>base := b\<rparr>))"

definition XORFile_tell :: "XORFile \<Rightarrow> nat" where
  "XORFile_tell x = pos (base x)"









section \<open>Archives as the zipfile and tarfile modules show them\<close>

text \<open>
  A ZIP container is the list of its entries, in stored order, and its comment. An
  entry carries the fields of \<open>ZipInfo\<close> the program reads, and its payload:
  \<open>zpassword\<close> is \<open>None\<close> for an entry stored in the clear (bit 0 of
  \<open>flag_bits\<close> unset) and the password otherwise. A timestamp is a number.
\<close>

type_synonym time = nat

datatype error =
    FileNotFoundError | BadZipFile | ReadError | RuntimeError | KeyError | OSError
  | UnicodeEncodeError

text \<open>What an operation shows when it ends: the message box, or nothing.\<close>

datatype dialog =
    InfoDialog | ErrorDialog error | ExistsDialog | UnsupportedDialog | NoArchiveDialog
  | NoSelectionDialog | ManySelectedDialog | NoDialog

record ZipInfo =
  filename :: string
  date_time :: time
  zpassword :: "byte list option"
  zdata :: "byte list"

definition file_size :: "ZipInfo \<Rightarrow> nat" where
  "file_size fi = length (zdata fi)"

record ZipFile =
  infolist :: "ZipInfo list"
  comment :: "byte list"

text \<open>
  A TAR member: a regular file with its bytes, a directory, or another kind of member
  (a link, a device) that has no bytes. \<open>tarfile\<close> strips the trailing slash of a
  directory's name when it reads the header, so the kind, not the name, says what is a
  directory.
\<close>

datatype tar_kind = Reg "byte list" | Dir | Other

record TarInfo =
  name :: string
  mtime :: time
  kind :: tar_kind

definition isfile :: "TarInfo \<Rightarrow> bool" where
  "isfile m = (case kind m of Reg d \<Rightarrow> True | Dir \<Rightarrow> False | Other \<Rightarrow> False)"

definition isdir :: "TarInfo \<Rightarrow> bool" where
  "isdir m = (kind m = Dir)"

definition tar_size :: "TarInfo \<Rightarrow> nat" where
  "tar_size m = (case kind m of Reg d \<Rightarrow> length d | Dir \<Rightarrow> 0 | Other \<Rightarrow> 0)"

datatype container = ZipContainer ZipFile | TarContainer "TarInfo list"

text \<open>
  The world the operations run in: the files by path; how many more entry writes the
  disk takes (\<open>None\<close>: no limit), so that a write phase can fail; and the wall clock,
  read by every \<open>writestr\<close> (\<open>clock w (tick w)\<close> is the next reading).
\<close>

record world =
  files :: "string \<rightharpoonup> container"
  disk_left :: "nat option"
  clock :: "nat \<Rightarrow> time"
  tick :: nat

definition COMMENT_NAME :: string where
  "COMMENT_NAME = ''.archivator_comment.txt''"

definition is_zip_based :: "string \<Rightarrow> bool" where
  \<comment> \<open>\<open>self.archive_name.lower().endswith(('.zip', '.arc'))\<close>\<close>
  "is_zip_based archive_name =
     (endswith (lower archive_name) ''.zip'' \<or> endswith (lower archive_name) ''.arc'')"

definition is_tar :: "string \<Rightarrow> bool" where
  "is_tar archive_name = endswith (lower archive_name) ''.tar''"

definition os_path_join :: "string \<Rightarrow> string \<Rightarrow> string" where
  \<comment> \<open>\<open>posixpath.join\<close> of two parts\<close>
  "os_path_join a b =
     (if startswith b ''/'' then b
      else if a = [] \<or> endswith a ''/'' then a @ b
      else a @ ''/'' @ b)"

definition open_zip_r :: "world \<Rightarrow> string \<Rightarrow> error + ZipFile" where
  \<comment> \<open>\<open>open_zip(path, 'r')\<close>\<close>
  "open_zip_r w path =
     (case files w path of
        None \<Rightarrow> Inl FileNotFoundError
      | Some (ZipContainer a) \<Rightarrow> Inr a
      | Some (TarContainer ms) \<Rightarrow> Inl BadZipFile)"

definition tarfile_open_r :: "world \<Rightarrow> string \<Rightarrow> error + TarInfo list" where
  \<comment> \<open>\<open>tarfile.open(path, 'r')\<close> and \<open>getmembers()\<close>\<close>
  "tarfile_open_r w path =
     (case files w path of
        None \<Rightarrow> Inl FileNotFoundError
      | Some (ZipContainer a) \<Rightarrow> Inl ReadError
      | Some (TarContainer ms) \<Rightarrow> Inr ms)"

definition zip_read :: "ZipFile \<Rightarrow> byte list option \<Rightarrow> string \<Rightarrow> error + byte list" where
  \<comment> \<open>\<open>archive.read(name)\<close>: the last entry of that name; an encrypted entry needs
      its password\<close>
  "zip_read a pwd n =
     (case find (\<lambda>fi. filename fi = n) (rev (infolist a)) of
        None \<Rightarrow> Inl KeyError
      | Some fi \<Rightarrow>
          (case zpassword fi of
             None \<Rightarrow> Inr (zdata fi)
           | Some p \<Rightarrow> if pwd = Some p then Inr (zdata fi) else Inl RuntimeError))"

section \<open>gui.py: the directory listing\<close>

fun str_nat :: "nat \<Rightarrow> string" where
  "str_nat n =
     (if n < 10 then [char_of (48 + n)]
      else str_nat (n div 10) @ [char_of (48 + n mod 10)])"

declare str_nat.simps [simp del]

text \<open>
  The dictionary \<open>entries\<close> keeps its keys in insertion order; assigning to a key
  that is present replaces the value where it stands.
\<close>

type_synonym row_val = "string \<times> time option \<times> bool"

fun dict_set :: "('k \<times> 'v) list \<Rightarrow> 'k \<Rightarrow> 'v \<Rightarrow> ('k \<times> 'v) list" where
  "dict_set [] k v = [(k, v)]"
| "dict_set ((k', v') # kvs) k v =
     (if k' = k then (k, v) # kvs else (k', v') # dict_set kvs k v)"

definition dict_has :: "('k \<times> 'v) list \<Rightarrow> 'k \<Rightarrow> bool" where
  "dict_has d k = (map_of d k \<noteq> None)"

definition zip_step :: "string \<Rightarrow> (string \<times> row_val) list \<Rightarrow> ZipInfo \<Rightarrow> (string \<times> row_val) list" where
  "zip_step current_folder entries fi =
     (if \<not> startswith (filename fi) current_folder then entries
      else
        let rel = drop (length current_folder) (filename fi) in
        if rel = [] then entries
        else
          let top = takeWhile (\<lambda>c. c \<noteq> CHR ''/'') rel in
          if CHR ''/'' \<notin> set rel
          then dict_set entries top (str_nat (file_size fi), Some (date_time fi), False)
          else
            let folder_key = top @ ''/'' in
            if \<not> dict_has entries folder_key
            then dict_set entries folder_key ([], None, True)
            else entries)"

definition tar_step :: "string \<Rightarrow> (string \<times> row_val) list \<Rightarrow> TarInfo \<Rightarrow> (string \<times> row_val) list" where
  "tar_step current_folder entries fi =
     (if \<not> startswith (name fi) current_folder then entries
      else
        let rel = drop (length current_folder) (name fi) in
        if rel = [] then entries
        else
          let top = takeWhile (\<lambda>c. c \<noteq> CHR ''/'') rel in
          if CHR ''/'' \<notin> set rel \<and> \<not> isdir fi
          then dict_set entries top (str_nat (tar_size fi), Some (mtime fi), False)
          else
            let folder_key = top @ ''/'' in
            if \<not> dict_has entries folder_key
            then dict_set entries folder_key ([], None, True)
            else entries)"

definition sort_rows :: "(string \<times> row_val) list \<Rightarrow> (string \<times> row_val) list" where
  \<comment> \<open>\<open>sorted(entries.items(), key=lambda x: (not x[1][2], x[0].lower()))\<close>\<close>
  "sort_rows entries = sort_key (\<lambda>x. (\<not> snd (snd (snd x)), lower (fst x))) entries"

type_synonym row = "string \<times> string \<times> time option"

definition insert_rows :: "string \<Rightarrow> (string \<times> row_val) list \<Rightarrow> row list" where
  "insert_rows current_folder entries =
     (if current_folder \<noteq> [] then [(''..'', [], None)] else [])
     @ map (\<lambda>(n, sz, dt, is_dir). (n, sz, dt)) (sort_rows entries)"

definition zip_entries :: "string \<Rightarrow> ZipInfo list \<Rightarrow> (string \<times> row_val) list" where
  "zip_entries current_folder fis = foldl (zip_step current_folder) [] fis"

definition tar_entries :: "string \<Rightarrow> TarInfo list \<Rightarrow> (string \<times> row_val) list" where
  "tar_entries current_folder ms = foldl (tar_step current_folder) [] ms"

definition update_file_list :: "world \<Rightarrow> string \<Rightarrow> string \<Rightarrow> error + row list" where
  \<comment> \<open>the rows put into the list control; \<open>Inl e\<close> is the error dialog, with no row\<close>
  "update_file_list w archive_name current_folder =
     (if is_zip_based archive_name then
        (case open_zip_r w archive_name of
           Inl e \<Rightarrow> Inl e
         | Inr archive \<Rightarrow>
             Inr (insert_rows current_folder (zip_entries current_folder (infolist archive))))
      else if is_tar archive_name then
        (case tarfile_open_r w archive_name of
           Inl e \<Rightarrow> Inl e
         | Inr ms \<Rightarrow> Inr (insert_rows current_folder (tar_entries current_folder ms)))
      else Inr (insert_rows current_folder []))"






fun first_occ :: "'k list \<Rightarrow> ('k \<times> 'v) list \<Rightarrow> ('k \<times> 'v) list" where
  "first_occ seen [] = []"
| "first_occ seen (x # xs) =
     (if fst x \<in> set seen then first_occ seen xs else x # first_occ (fst x # seen) xs)"








section \<open>gui.py: search and extract-all\<close>

fun contains :: "string \<Rightarrow> string \<Rightarrow> bool" where
  \<comment> \<open>\<open>sub in s\<close>\<close>
  "contains sub [] = (sub = [])"
| "contains sub (c # cs) = (startswith (c # cs) sub \<or> contains sub cs)"

definition display_name :: "string \<Rightarrow> string \<Rightarrow> string" where
  "display_name current_folder n =
     (if current_folder \<noteq> [] then drop (length current_folder) n else n)"

definition search_in_archive :: "world \<Rightarrow> string \<Rightarrow> string \<Rightarrow> string \<Rightarrow> dialog + row list" where
  \<comment> \<open>the rows put into the list control, in archive order\<close>
  "search_in_archive w archive_name current_folder search_text =
     (if archive_name = [] then Inl NoArchiveDialog
      else if is_zip_based archive_name then
        (case open_zip_r w archive_name of
           Inl e \<Rightarrow> Inl (ErrorDialog e)
         | Inr archive \<Rightarrow>
             Inr (map (\<lambda>fi. (display_name current_folder (filename fi),
                               str_nat (file_size fi), Some (date_time fi)))
                    (filter (\<lambda>fi. contains search_text (lower (filename fi)))
                       (infolist archive))))
      else if is_tar archive_name then
        (case tarfile_open_r w archive_name of
           Inl e \<Rightarrow> Inl (ErrorDialog e)
         | Inr ms \<Rightarrow>
             Inr (map (\<lambda>fi. (display_name current_folder (name fi),
                               str_nat (tar_size fi), Some (mtime fi)))
                    (filter (\<lambda>fi. contains search_text (lower (name fi))) ms)))
      else Inr [])"

text \<open>
  \<open>_do_extract(pwd)\<close> of \<open>on_extract_all\<close>: the paths written under the target
  directory, in order, and the error that stopped the loop, if one did.
\<close>

fun zip_extract_all :: "byte list option \<Rightarrow> ZipInfo list \<Rightarrow> string list \<times> error option" where
  "zip_extract_all pwd [] = ([], None)"
| "zip_extract_all pwd (fi # fis) =
     (if filename fi = COMMENT_NAME then zip_extract_all pwd fis
      else if zpassword fi \<noteq> None \<and> zpassword fi \<noteq> pwd then ([], Some RuntimeError)
      else (case zip_extract_all pwd fis of (ns, r) \<Rightarrow> (filename fi # ns, r)))"

fun tar_extract_all :: "TarInfo list \<Rightarrow> string list" where
  "tar_extract_all [] = []"
| "tar_extract_all (member # ms) =
     (if name member = COMMENT_NAME then tar_extract_all ms
      else name member # tar_extract_all ms)"

definition do_extract :: "world \<Rightarrow> string \<Rightarrow> byte list option \<Rightarrow> string list \<times> error option" where
  "do_extract w archive_name pwd =
     (if is_zip_based archive_name then
        (case open_zip_r w archive_name of
           Inl e \<Rightarrow> ([], Some e)
         | Inr archive \<Rightarrow> zip_extract_all pwd (infolist archive))
      else if is_tar archive_name then
        (case tarfile_open_r w archive_name of
           Inl e \<Rightarrow> ([], Some e)
         | Inr ms \<Rightarrow> (tar_extract_all ms, None))
      else ([], None))"

section \<open>gui.py: delete and rename\<close>

text \<open>
  Writing one entry takes one unit of what the disk has left and fails with
  \<open>OSError\<close> when nothing is left. \<open>writestr\<close> with a bare name builds a fresh
  \<open>ZipInfo\<close>: stamped with the clock, not encrypted.
\<close>

definition writestr :: "world \<Rightarrow> ZipInfo list \<Rightarrow> string \<Rightarrow> byte list \<Rightarrow> error + (world \<times> ZipInfo list)" where
  "writestr w written n d =
     (if disk_left w = Some 0 then Inl OSError
      else Inr (w\<lparr>disk_left := map_option (\<lambda>k. k - 1) (disk_left w), tick := Suc (tick w)\<rparr>,
                written @ [\<lparr>filename = n, date_time = clock w (tick w), zpassword = None,
                             zdata = d\<rparr>]))"

definition addfile :: "world \<Rightarrow> TarInfo list \<Rightarrow> TarInfo \<Rightarrow> error + (world \<times> TarInfo list)" where
  \<comment> \<open>\<open>addfile(member, fileobj)\<close> and \<open>addfile(member)\<close>: the header as it is, and
      the bytes of a regular file\<close>
  "addfile w written member =
     (if disk_left w = Some 0 then Inl OSError
      else Inr (w\<lparr>disk_left := map_option (\<lambda>k. k - 1) (disk_left w)\<rparr>, written @ [member]))"

fun read_all :: "ZipFile \<Rightarrow> ZipInfo list \<Rightarrow> (string \<rightharpoonup> byte list) \<Rightarrow> error + (string \<rightharpoonup> byte list)" where
  \<comment> \<open>the dictionary of payloads by name; directory markers are skipped\<close>
  "read_all archive [] data = Inr data"
| "read_all archive (fi # fis) data =
     (if endswith (filename fi) ''/'' then read_all archive fis data
      else (case zip_read archive None (filename fi) of
              Inl e \<Rightarrow> Inl e
            | Inr d \<Rightarrow> read_all archive fis (data(filename fi \<mapsto> d))))"

definition replaced_name :: "bool \<Rightarrow> string \<Rightarrow> string \<Rightarrow> string \<Rightarrow> string" where
  "replaced_name is_dir old_full new_full original_name =
     (if is_dir then
        (if startswith original_name old_full
         then new_full @ drop (length old_full) original_name
         else original_name)
      else (if original_name = old_full then new_full else original_name))"

fun write_all :: "(string \<Rightarrow> string) \<Rightarrow> (string \<rightharpoonup> byte list) \<Rightarrow> world \<Rightarrow> ZipInfo list \<Rightarrow> ZipInfo list
    \<Rightarrow> error option \<times> world \<times> ZipInfo list" where
  \<comment> \<open>the loop over \<open>entries\<close> inside \<open>with open_zip(..., 'w')\<close>; \<open>rename\<close> is the
      identity in delete and \<open>replaced_name\<close> in rename\<close>
  "write_all rename data w written [] = (None, w, written)"
| "write_all rename data w written (fi # fis) =
     (case (if endswith (filename fi) ''/'' then Inr []
            else (case data (filename fi) of None \<Rightarrow> Inl KeyError | Some d \<Rightarrow> Inr d)) of
        Inl e \<Rightarrow> (Some e, w, written)
      | Inr d \<Rightarrow>
          (case writestr w written (rename (filename fi)) d of
             Inl e \<Rightarrow> (Some e, w, written)
           | Inr (w', written') \<Rightarrow> write_all rename data w' written' fis))"

definition open_zip_w :: "world \<Rightarrow> string \<Rightarrow> (world \<Rightarrow> ZipInfo list \<Rightarrow> error option \<times> world \<times> ZipInfo list)
    \<Rightarrow> error option \<times> world" where
  \<comment> \<open>\<open>with open_zip(path, 'w') as (new_arc, _): body\<close>: the file is truncated when it
      is opened, and holds what was written when it is closed, on every exit path\<close>
  "open_zip_w w path body =
     (let w1 = w\<lparr>files := (files w)(path \<mapsto> ZipContainer \<lparr>infolist = [], comment = []\<rparr>)\<rparr>
      in case body w1 [] of
           (r, w2, written) \<Rightarrow>
             (r, w2\<lparr>files := (files w2)(path \<mapsto>
                       ZipContainer \<lparr>infolist = written, comment = []\<rparr>)\<rparr>))"

fun add_all :: "(string \<Rightarrow> string) \<Rightarrow> world \<Rightarrow> TarInfo list \<Rightarrow> TarInfo list
    \<Rightarrow> error option \<times> world \<times> TarInfo list" where
  \<comment> \<open>the loop over \<open>getmembers()\<close>; \<open>rename\<close> is the assignment to \<open>member.name\<close>\<close>
  "add_all rename w written [] = (None, w, written)"
| "add_all rename w written (member # ms) =
     (case addfile w written (member\<lparr>name := rename (name member)\<rparr>) of
        Inl e \<Rightarrow> (Some e, w, written)
      | Inr (w', written') \<Rightarrow> add_all rename w' written' ms)"

definition tarfile_open_w :: "world \<Rightarrow> string \<Rightarrow> (world \<Rightarrow> TarInfo list \<Rightarrow> error option \<times> world \<times> TarInfo list)
    \<Rightarrow> error option \<times> world" where
  \<comment> \<open>\<open>with tarfile.open(path, 'w') as t: body\<close>\<close>
  "tarfile_open_w w path body =
     (let w1 = w\<lparr>files := (files w)(path \<mapsto> TarContainer [])\<rparr>
      in case body w1 [] of
           (r, w2, written) \<Rightarrow> (r, w2\<lparr>files := (files w2)(path \<mapsto> TarContainer written)\<rparr>))"

definition os_replace :: "world \<Rightarrow> string \<Rightarrow> string \<Rightarrow> world" where
  "os_replace w src dst = w\<lparr>files := (files w)(dst := files w src, src := None)\<rparr>"

definition delete_selected_file :: "world \<Rightarrow> string \<Rightarrow> string \<Rightarrow> string list \<Rightarrow> bool \<Rightarrow> dialog \<times> world" where
  \<comment> \<open>\<open>selected\<close>: the texts of the selected rows; \<open>confirmed\<close>: the answer to the
      message box\<close>
  "delete_selected_file w archive_name current_folder selected confirmed =
     (if selected = [] then (NoSelectionDialog, w)
      else
        let selected_file_names = map (os_path_join current_folder) selected in
        if \<not> confirmed then (NoDialog, w)
        else if is_zip_based archive_name then
          (case open_zip_r w archive_name of
             Inl e \<Rightarrow> (ErrorDialog e, w)
           | Inr archive \<Rightarrow>
               let entries = filter (\<lambda>fi. filename fi \<notin> set selected_file_names)
                               (infolist archive)
               in (case read_all archive entries Map.empty of
                     Inl e \<Rightarrow> (ErrorDialog e, w)
                   | Inr data \<Rightarrow>
                       (case open_zip_w w archive_name
                               (\<lambda>w' written. write_all (\<lambda>n. n) data w' written entries) of
                          (Some e, w') \<Rightarrow> (ErrorDialog e, w')
                        | (None, w') \<Rightarrow> (InfoDialog, w'))))
        else if is_tar archive_name then
          (case tarfile_open_r w archive_name of
             Inl e \<Rightarrow> (ErrorDialog e, w)
           | Inr members \<Rightarrow>
               (case tarfile_open_w w (archive_name @ ''.tmp'')
                       (\<lambda>w' written. add_all (\<lambda>n. n) w' written
                          (filter (\<lambda>member. name member \<notin> set selected_file_names) members)) of
                  (Some e, w') \<Rightarrow> (ErrorDialog e, w')
                | (None, w') \<Rightarrow>
                    (InfoDialog, os_replace w' (archive_name @ ''.tmp'') archive_name)))
        else (InfoDialog, w))"

definition isspace :: "char \<Rightarrow> bool" where
  \<comment> \<open>\<open>str.isspace()\<close> on one code point below 256\<close>
  "isspace c =
     (let n = (of_char c :: nat) in
      (9 \<le> n \<and> n \<le> 13) \<or> (28 \<le> n \<and> n \<le> 32) \<or> n = 133 \<or> n = 160)"

definition strip :: "string \<Rightarrow> string" where
  "strip s = rev (dropWhile isspace (rev (dropWhile isspace s)))"

definition rstrip_slash :: "string \<Rightarrow> string" where
  \<comment> \<open>\<open>s.rstrip('/')\<close>\<close>
  "rstrip_slash s = rev (dropWhile (\<lambda>c. c = CHR ''/'') (rev s))"

definition new_name :: "string \<Rightarrow> string \<Rightarrow> string" where
  \<comment> \<open>the dialog's text, stripped, with the slash of a directory added and the slashes
      of a file removed\<close>
  "new_name old_display_name typed =
     (let new_name_input = strip typed;
          is_dir = endswith old_display_name ''/'';
          n1 = (if is_dir \<and> \<not> endswith new_name_input ''/'' then new_name_input @ ''/''
                else new_name_input)
      in if \<not> is_dir \<and> endswith n1 ''/'' then rstrip_slash n1 else n1)"

definition rename_zip :: "world \<Rightarrow> string \<Rightarrow> bool \<Rightarrow> string \<Rightarrow> string \<Rightarrow> dialog \<times> world" where
  "rename_zip w archive_name is_dir old_full new_full =
     (case open_zip_r w archive_name of
        Inl e \<Rightarrow> (ErrorDialog e, w)
      | Inr archive \<Rightarrow>
          let entries = infolist archive in
          (case read_all archive entries Map.empty of
             Inl e \<Rightarrow> (ErrorDialog e, w)
           | Inr data_map \<Rightarrow>
               if new_full \<in> set (map filename entries) then (ExistsDialog, w)
               else
                 (case open_zip_w w archive_name
                         (\<lambda>w' written.
                            write_all (replaced_name is_dir old_full new_full) data_map
                              w' written entries) of
                    (Some e, w') \<Rightarrow> (ErrorDialog e, w')
                  | (None, w') \<Rightarrow> (InfoDialog, w'))))"

definition rename_tar :: "world \<Rightarrow> string \<Rightarrow> bool \<Rightarrow> string \<Rightarrow> string \<Rightarrow> dialog \<times> world" where
  "rename_tar w archive_name is_dir old_full new_full =
     (case tarfile_open_r w archive_name of
        Inl e \<Rightarrow> (ErrorDialog e, w)
      | Inr members \<Rightarrow>
          (case tarfile_open_w w (archive_name @ ''.tmp'')
                  (\<lambda>w' written.
                     add_all (replaced_name is_dir old_full new_full) w' written members) of
             (Some e, w') \<Rightarrow> (ErrorDialog e, w')
           | (None, w') \<Rightarrow>
               (InfoDialog, os_replace w' (archive_name @ ''.tmp'') archive_name)))"

definition on_rename_file :: "world \<Rightarrow> string \<Rightarrow> string \<Rightarrow> string list \<Rightarrow> string option \<Rightarrow> dialog \<times> world" where
  \<comment> \<open>\<open>selected\<close>: the texts of the selected rows; \<open>typed\<close>: what the text-entry
      dialog returned, \<open>None\<close> when it was cancelled\<close>
  "on_rename_file w archive_name current_folder selected typed =
     (if archive_name = [] then (NoArchiveDialog, w)
      else
        (case selected of
           [] \<Rightarrow> (NoSelectionDialog, w)
         | old_display_name # others \<Rightarrow>
             if others \<noteq> [] then (ManySelectedDialog, w)
             else if old_display_name = ''..'' \<or> old_display_name = [] then (NoDialog, w)
             else
               (case typed of
                  None \<Rightarrow> (NoDialog, w)
                | Some t \<Rightarrow>
                    let is_dir = endswith old_display_name ''/'';
                        new_name_input = new_name old_display_name t
                    in if new_name_input = [] \<or> new_name_input = old_display_name
                       then (NoDialog, w)
                       else
                         let old_full = os_path_join current_folder old_display_name;
                             new_full = os_path_join current_folder new_name_input
                         in if is_zip_based archive_name
                            then rename_zip w archive_name is_dir old_full new_full
                            else if is_tar archive_name
                            then rename_tar w archive_name is_dir old_full new_full
                            else (UnsupportedDialog, w))))"

section \<open>gui.py: the archive comment\<close>

text \<open>
  A comment text is a list of code points. \<open>str.encode('utf-8')\<close> raises on a
  surrogate; a number from 0x110000 on is no code point of a Python string, and is
  refused in the same way. The decoder is \<open>bytes.decode('utf-8', errors='ignore')\<close>:
  where a well-formed sequence starts it yields its code point, and it skips any other
  byte.
\<close>

definition is_scalar :: "nat \<Rightarrow> bool" where
  "is_scalar c = (c < 0xD800 \<or> (0xE000 \<le> c \<and> c < 0x110000))"



definition is_cont :: "nat \<Rightarrow> bool" where
  "is_cont b = (0x80 \<le> b \<and> b < 0xC0)"

definition decode_at :: "nat list \<Rightarrow> (nat \<times> nat) option" where
  \<comment> \<open>the code point of the well-formed sequence at the head, and its length\<close>
  "decode_at bs =
     (case bs of
        [] \<Rightarrow> None
      | b # r \<Rightarrow>
          if b < 0x80 then Some (b, 1)
          else if 0xC2 \<le> b \<and> b < 0xE0 then
            (case r of
               c1 # r1 \<Rightarrow>
                 if is_cont c1 then Some ((b - 0xC0) * 64 + (c1 - 0x80), 2) else None
             | _ \<Rightarrow> None)
          else if 0xE0 \<le> b \<and> b < 0xF0 then
            (case r of
               c1 # c2 # r2 \<Rightarrow>
                 let cp = (b - 0xE0) * 4096 + (c1 - 0x80) * 64 + (c2 - 0x80)
                 in if is_cont c1 \<and> is_cont c2 \<and> 0x800 \<le> cp \<and> is_scalar cp
                    then Some (cp, 3) else None
             | _ \<Rightarrow> None)
          else if 0xF0 \<le> b \<and> b < 0xF5 then
            (case r of
               c1 # c2 # c3 # r3 \<Rightarrow>
                 let cp = (b - 0xF0) * 262144 + (c1 - 0x80) * 4096 + (c2 - 0x80) * 64
                          + (c3 - 0x80)
                 in if is_cont c1 \<and> is_cont c2 \<and> is_cont c3 \<and> 0x10000 \<le> cp
                       \<and> cp < 0x110000
                    then Some (cp, 4) else None
             | _ \<Rightarrow> None)
          else None)"

function utf8_decode :: "nat list \<Rightarrow> nat list" where
  "utf8_decode [] = []"
| "utf8_decode (b # bs) =
     (case decode_at (b # bs) of
        Some (cp, n) \<Rightarrow> cp # utf8_decode (drop (n - 1) bs)
      | None \<Rightarrow> utf8_decode bs)"
  by pat_completeness auto
termination
  by (relation "measure length") auto

definition decode_utf8_ignore :: "byte list \<Rightarrow> nat list" where
  "decode_utf8_ignore bs = utf8_decode (map unat bs)"







section \<open>The stream cipher\<close>

lemma xor_bytes_twice: "xor_bytes k (xor_bytes k bs) = bs"
  by (induction bs) (simp_all add: xor_bytes_def xor.assoc)

lemma xor_bytes_append: "xor_bytes k (xs @ ys) = xor_bytes k xs @ xor_bytes k ys"
  by (simp add: xor_bytes_def)

lemma xor_bytes_concat: "xor_bytes k (concat xss) = concat (map (xor_bytes k) xss)"
  by (induction xss) (simp_all add: xor_bytes_append, simp add: xor_bytes_def)

lemma xor_bytes_Nil_iff: "xor_bytes k bs = [] \<longleftrightarrow> bs = []"
  by (simp add: xor_bytes_def)

lemma base_write_read_back:
  "base_read ((snd (base_write f d))\<lparr>pos := pos f\<rparr>) (int (length d))
     = (d, snd (base_write f d))"
  by (cases "d = []") (simp_all add: base_write_def base_read_def Let_def min_def)

definition write_then_read :: "XORFile \<Rightarrow> byte list \<Rightarrow> io_error + byte list" where
  \<comment> \<open>\<open>p = x.tell(); n = x.write(d); x.seek(p); x.read(n)\<close>\<close>
  "write_then_read x d =
     (let p = XORFile_tell x; (n, x1) = XORFile_write x d
      in case XORFile_seek x1 (int p) SEEK_SET of
           Inl e \<Rightarrow> Inl e
         | Inr (q, x2) \<Rightarrow> Inr (fst (XORFile_read x2 (int n))))"

lemma XORFile_write_then_read: "write_then_read x d = Inr d"
proof (cases "d = []")
  case True
  then show ?thesis
    by (simp add: write_then_read_def XORFile_tell_def XORFile_write_def XORFile_seek_def
        XORFile_read_def base_write_def base_seek_def base_read_def xor_bytes_def)
next
  case False
  then have ne: "xor_bytes (key x) d \<noteq> []"
    by (simp add: xor_bytes_Nil_iff)
  have len: "length (xor_bytes (key x) d) = length d"
    by (simp add: xor_bytes_def)
  have rd: "base_read ((snd (base_write (base x) (xor_bytes (key x) d)))\<lparr>pos := pos (base x)\<rparr>)
              (int (length d))
            = (xor_bytes (key x) d, snd (base_write (base x) (xor_bytes (key x) d)))"
    using base_write_read_back [of "base x" "xor_bytes (key x) d"] by (simp add: len)
  have wr: "fst (base_write (base x) (xor_bytes (key x) d)) = length d"
    using ne by (simp add: base_write_def len)
  show ?thesis
    using ne rd wr
    by (simp add: write_then_read_def XORFile_tell_def XORFile_write_def XORFile_seek_def
        XORFile_read_def base_seek_def split_beta xor_bytes_twice)
qed

text \<open>
  C5. The stream-cipher transform is an involution for every key, so encoding and
  decoding are one operation; bytes written through \<open>XORFile.write\<close> and read back
  through \<open>XORFile.read\<close> at the same position come back unchanged, while the base
  file holds their transform; and the transform is position-independent: transforming
  the slices of any partition of a byte sequence and concatenating the results is
  transforming the whole.
\<close>

theorem xor_stream_involution:
  "xor_bytes k (xor_bytes k b) = b
   \<and> write_then_read x d = Inr d
   \<and> fst (base_read ((base (snd (XORFile_write x d)))\<lparr>pos := pos (base x)\<rparr>) (int (length d)))
       = xor_bytes (key x) d
   \<and> xor_bytes k (concat parts) = concat (map (xor_bytes k) parts)"
proof -
  have "fst (base_read ((base (snd (XORFile_write x d)))\<lparr>pos := pos (base x)\<rparr>) (int (length d)))
          = xor_bytes (key x) d"
    using base_write_read_back [of "base x" "xor_bytes (key x) d"]
    by (simp add: XORFile_write_def split_beta xor_bytes_def)
  then show ?thesis
    by (simp add: xor_bytes_twice XORFile_write_then_read xor_bytes_concat)
qed


section \<open>The directory projection\<close>
















lemma first_occ_subset: "set (first_occ s xs) \<subseteq> set xs"
  by (induction xs arbitrary: s) auto








definition example_zip :: "ZipInfo list" where
  "example_zip =
     [\<lparr>filename = ''a/b.txt'', date_time = 7, zpassword = None, zdata = [1, 2]\<rparr>,
      \<lparr>filename = ''a/c/d.txt'', date_time = 8, zpassword = None, zdata = [3]\<rparr>,
      \<lparr>filename = ''e.txt'', date_time = 9, zpassword = None, zdata = []\<rparr>]"

definition example_tar :: "TarInfo list" where
  "example_tar =
     [\<lparr>name = ''d'', mtime = 5, kind = Dir\<rparr>,
      \<lparr>name = ''d/f.txt'', mtime = 6, kind = Reg [1, 2, 3]\<rparr>]"

definition example_world :: world where
  "example_world =
     \<lparr>files = [''x.zip'' \<mapsto> ZipContainer \<lparr>infolist = example_zip, comment = []\<rparr>,
               ''t.tar'' \<mapsto> TarContainer example_tar],
      disk_left = None, clock = (\<lambda>i. 100 + i), tick = 0\<rparr>"

lemma update_file_list_zip:
  "is_zip_based an \<Longrightarrow> files w an = Some (ZipContainer a) \<Longrightarrow>
   update_file_list w an cur = Inr (insert_rows cur (zip_entries cur (infolist a)))"
  by (simp add: update_file_list_def open_zip_r_def)






section \<open>The sentinel entry and the rewrite in place\<close>

definition comment_world :: world where
  "comment_world =
     \<lparr>files = [''t.tar'' \<mapsto> TarContainer
                 [\<lparr>name = ''a.txt'', mtime = 6, kind = Reg [1]\<rparr>,
                  \<lparr>name = ''.archivator_comment.txt'', mtime = 0, kind = Reg [104, 105]\<rparr>]],
      disk_left = None, clock = (\<lambda>i. 100 + i), tick = 0\<rparr>"

text \<open>
  C2. The claim: the reserved entry \<open>.archivator_comment.txt\<close> never appears in the
  directory listing, in a search result or in the output of extract-all. On a TAR
  archive that holds the entry (as every archive does once a comment was saved), the
  listing of the root shows it and a search for \<open>comment\<close> finds it; only
  extract-all skips it. The listing of version 1.3.1 skipped it.
\<close>

theorem sentinel_is_listed:
  "update_file_list comment_world ''t.tar'' []
     = Inr [(''.archivator_comment.txt'', ''2'', Some 0), (''a.txt'', ''1'', Some 6)]
   \<and> search_in_archive comment_world ''t.tar'' [] ''comment''
       = Inr [(''.archivator_comment.txt'', ''2'', Some 0)]
   \<and> do_extract comment_world ''t.tar'' None = ([''a.txt''], None)"
  by code_simp

definition full_disk_world :: world where
  "full_disk_world = example_world\<lparr>disk_left := Some 0\<rparr>"

text \<open>
  C1. The claim: when any step of a delete, rename or comment rewrite fails, the
  original archive file is unchanged and the temporary file is discarded. With a disk
  that takes no more writes, deleting or renaming an entry of a ZIP archive ends in the
  error dialog and leaves the archive file truncated: the ZIP branches open the archive
  itself for writing. The TAR branch writes \<open>archive_name + '.tmp'\<close> and leaves the
  archive as it was, but the temporary file stays.
\<close>

theorem zip_rewrite_is_in_place:
  "fst (delete_selected_file full_disk_world ''x.zip'' [] [''e.txt''] True) = ErrorDialog OSError
   \<and> files (snd (delete_selected_file full_disk_world ''x.zip'' [] [''e.txt''] True)) ''x.zip''
       = Some (ZipContainer \<lparr>infolist = [], comment = []\<rparr>)
   \<and> files full_disk_world ''x.zip''
       = Some (ZipContainer \<lparr>infolist = example_zip, comment = []\<rparr>)
   \<and> fst (on_rename_file full_disk_world ''x.zip'' [] [''e.txt''] (Some ''f.txt''))
       = ErrorDialog OSError
   \<and> files (snd (on_rename_file full_disk_world ''x.zip'' [] [''e.txt''] (Some ''f.txt''))) ''x.zip''
       = Some (ZipContainer \<lparr>infolist = [], comment = []\<rparr>)
   \<and> fst (delete_selected_file full_disk_world ''t.tar'' [] [''d/f.txt''] True) = ErrorDialog OSError
   \<and> files (snd (delete_selected_file full_disk_world ''t.tar'' [] [''d/f.txt''] True)) ''t.tar''
       = Some (TarContainer example_tar)
   \<and> files (snd (delete_selected_file full_disk_world ''t.tar'' [] [''d/f.txt''] True)) ''t.tar.tmp''
       = Some (TarContainer [])"
  by code_simp

section \<open>Delete and rename: what a successful rewrite leaves\<close>

definition rewritten :: "(string \<Rightarrow> string) \<Rightarrow> world \<Rightarrow> ZipInfo list \<Rightarrow> ZipInfo list" where
  \<comment> \<open>what a successful write loop leaves for the entries it was given\<close>
  "rewritten rename w fis =
     map (\<lambda>(i, fi). \<lparr>filename = rename (filename fi), date_time = clock w i, zpassword = None,
                       zdata = (if endswith (filename fi) ''/'' then [] else zdata fi)\<rparr>)
       (enumerate (tick w) fis)"









lemma rewritten_files_upd [simp]: "rewritten rn (w\<lparr>files := f\<rparr>) fis = rewritten rn w fis"
  by (simp add: rewritten_def)









definition tar_contents :: "world \<Rightarrow> string \<Rightarrow> TarInfo list" where
  "tar_contents w an = (case files w an of Some (TarContainer ms) \<Rightarrow> ms | _ \<Rightarrow> [])"








lemma rewritten_date_time_aux:
  "map date_time
     (map (\<lambda>(i, fi). \<lparr>filename = rn (filename fi), date_time = c i, zpassword = None,
                       zdata = (if endswith (filename fi) ''/'' then [] else zdata fi)\<rparr>)
        (enumerate n fis))
     = map c [n..<n + length fis]"
proof (induction fis arbitrary: n)
  case Nil
  then show ?case by simp
next
  case (Cons fi fis)
  have "[n..<n + length (fi # fis)] = n # [Suc n..<n + length (fi # fis)]"
    by (rule upt_conv_Cons) simp
  then have u: "[n..<n + length (fi # fis)] = n # [Suc n..<Suc n + length fis]"
    by simp
  show ?case unfolding u using Cons.IH [of "Suc n"] by simp
qed

lemma rewritten_date_time:
  "map date_time (rewritten rn w fis) = map (clock w) [tick w..<tick w + length fis]"
  unfolding rewritten_def by (rule rewritten_date_time_aux)

lemma length_rewritten [simp]: "length (rewritten rn w fis) = length fis"
  by (simp add: rewritten_def)



lemma tar_contents_files:
  "files w an = Some (TarContainer ms) \<Longrightarrow> tar_contents w an = ms"
  by (simp add: tar_contents_def)














definition collision_world :: world where
  "collision_world =
     \<lparr>files = [''x.zip'' \<mapsto> ZipContainer
                  \<lparr>infolist = [\<lparr>filename = ''a.txt'', date_time = 1, zpassword = None, zdata = [1]\<rparr>,
                               \<lparr>filename = ''b.txt'', date_time = 2, zpassword = None, zdata = [2]\<rparr>],
                     comment = []\<rparr>,
               ''t.tar'' \<mapsto> TarContainer
                  [\<lparr>name = ''a.txt'', mtime = 1, kind = Reg [1]\<rparr>,
                   \<lparr>name = ''b.txt'', mtime = 2, kind = Reg [2]\<rparr>]],
      disk_left = None, clock = (\<lambda>i. 100 + i), tick = 0\<rparr>"

text \<open>
  C7. The claim: a rename onto the path of an existing entry fails with a duplicate-path
  error before anything is written, in the ZIP and in the TAR path. Renaming
  \<open>a.txt\<close> to \<open>b.txt\<close> where \<open>b.txt\<close> exists: the ZIP branch shows its
  already-exists dialog and leaves the archive as it was; the TAR branch has no such
  test, reports success and leaves two members named \<open>b.txt\<close>.
\<close>

theorem tar_rename_onto_existing:
  "fst (on_rename_file collision_world ''x.zip'' [] [''a.txt''] (Some ''b.txt'')) = ExistsDialog
   \<and> files (snd (on_rename_file collision_world ''x.zip'' [] [''a.txt''] (Some ''b.txt''))) ''x.zip''
       = files collision_world ''x.zip''
   \<and> fst (on_rename_file collision_world ''t.tar'' [] [''a.txt''] (Some ''b.txt'')) = InfoDialog
   \<and> tar_contents (snd (on_rename_file collision_world ''t.tar'' [] [''a.txt''] (Some ''b.txt'')))
         ''t.tar''
       = [\<lparr>name = ''b.txt'', mtime = 1, kind = Reg [1]\<rparr>,
          \<lparr>name = ''b.txt'', mtime = 2, kind = Reg [2]\<rparr>]"
  by code_simp

section \<open>The archive comment\<close>
















lemma decode_Nil [simp]: "decode_utf8_ignore [] = []"
  by (simp add: decode_utf8_ignore_def)















end
